theory Spec2Isabelle
  imports Complex_Main "HOL-Library.Sublist" "HOL-Library.Multiset"
begin

section \<open>The cafe inventory system (cafe\_inventory.py)\<close>

text \<open>
  The domain model of \<^verbatim>\<open>cafe_inventory.py\<close>: the dataclasses become records, the four
  dictionaries of \<^verbatim>\<open>InventorySystem\<close> become association lists in insertion order (Python
  dictionaries iterate in insertion order, and \<^verbatim>\<open>search_items\<close> and the tables depend on
  it), the four \<^verbatim>\<open>itertools.count\<close> generators become the next integer they will yield,
  and every method becomes a function from the state to a result and the state after the
  call. A \<^verbatim>\<open>raise\<close> becomes the left summand of the result, paired with the state at the
  moment of the raise.

  A character is a Unicode code point from U+0000 to U+00FF, and \<^verbatim>\<open>str.lower\<close>,
  \<^verbatim>\<open>str.isspace\<close> and \<^verbatim>\<open>str.strip\<close> are Python's on these code points. A price is a
  Python float: a finite value (a rational number; the floats are among them), the negative
  zero, an infinity or the NaN. The program never computes with a price; it only renders it
  with the format specification \<^verbatim>\<open>.2f\<close>.
\<close>

subsection \<open>Python dictionaries in insertion order\<close>

type_synonym ('k, 'v) dict = "('k \<times> 'v) list"

text \<open>\<^verbatim>\<open>k in d\<close>\<close>

definition dict_contains :: "'k \<Rightarrow> ('k, 'v) dict \<Rightarrow> bool" where
  "dict_contains k d = (k \<in> set (map fst d))"

text \<open>\<^verbatim>\<open>d[k] = v\<close>: an existing key keeps its position, a new key goes last.\<close>

fun dict_set :: "'k \<Rightarrow> 'v \<Rightarrow> ('k, 'v) dict \<Rightarrow> ('k, 'v) dict" where
  "dict_set k v [] = [(k, v)]"
| "dict_set k v (p # ps) = (if fst p = k then (k, v) # ps else p # dict_set k v ps)"

text \<open>\<^verbatim>\<open>d.get(k, dflt)\<close>\<close>

definition dict_get :: "('k, 'v) dict \<Rightarrow> 'k \<Rightarrow> 'v \<Rightarrow> 'v" where
  "dict_get d k dflt = (case map_of d k of None \<Rightarrow> dflt | Some v \<Rightarrow> v)"

text \<open>\<^verbatim>\<open>d.values()\<close>\<close>

definition dict_values :: "('k, 'v) dict \<Rightarrow> 'v list" where
  "dict_values d = map snd d"

subsection \<open>Strings\<close>

text \<open>The upper-case letters among the code points up to U+00FF: A to Z, and U+00C0 to
  U+00DE without the multiplication sign U+00D7. Each has its lower-case letter 32 code
  points above.\<close>

definition upper_chars :: "char list" where
  "upper_chars =
     ''ABCDEFGHIJKLMNOPQRSTUVWXYZ'' @
     [CHR 0xC0, CHR 0xC1, CHR 0xC2, CHR 0xC3, CHR 0xC4, CHR 0xC5, CHR 0xC6, CHR 0xC7,
      CHR 0xC8, CHR 0xC9, CHR 0xCA, CHR 0xCB, CHR 0xCC, CHR 0xCD, CHR 0xCE, CHR 0xCF,
      CHR 0xD0, CHR 0xD1, CHR 0xD2, CHR 0xD3, CHR 0xD4, CHR 0xD5, CHR 0xD6,
      CHR 0xD8, CHR 0xD9, CHR 0xDA, CHR 0xDB, CHR 0xDC, CHR 0xDD, CHR 0xDE]"

definition lower_chars :: "char list" where
  "lower_chars =
     ''abcdefghijklmnopqrstuvwxyz'' @
     [CHR 0xE0, CHR 0xE1, CHR 0xE2, CHR 0xE3, CHR 0xE4, CHR 0xE5, CHR 0xE6, CHR 0xE7,
      CHR 0xE8, CHR 0xE9, CHR 0xEA, CHR 0xEB, CHR 0xEC, CHR 0xED, CHR 0xEE, CHR 0xEF,
      CHR 0xF0, CHR 0xF1, CHR 0xF2, CHR 0xF3, CHR 0xF4, CHR 0xF5, CHR 0xF6,
      CHR 0xF8, CHR 0xF9, CHR 0xFA, CHR 0xFB, CHR 0xFC, CHR 0xFD, CHR 0xFE]"

definition lower_char :: "char \<Rightarrow> char" where
  "lower_char c = (case map_of (zip upper_chars lower_chars) c of None \<Rightarrow> c | Some l \<Rightarrow> l)"

text \<open>\<^verbatim>\<open>s.lower()\<close>\<close>

definition lower :: "string \<Rightarrow> string" where
  "lower s = map lower_char s"

text \<open>The code points up to U+00FF for which \<^verbatim>\<open>str.isspace\<close> holds: tab, line feed,
  vertical tab, form feed, carriage return, the four separators U+001C to U+001F, the space,
  the next-line control U+0085 and the no-break space U+00A0.\<close>

definition is_space :: "char \<Rightarrow> bool" where
  "is_space c =
     (c \<in> set [CHR 0x09, CHR 0x0A, CHR 0x0B, CHR 0x0C, CHR 0x0D,
                CHR 0x1C, CHR 0x1D, CHR 0x1E, CHR 0x1F, CHR '' '', CHR 0x85, CHR 0xA0])"

text \<open>\<^verbatim>\<open>s.strip()\<close>\<close>

definition strip :: "string \<Rightarrow> string" where
  "strip s = rev (dropWhile is_space (rev (dropWhile is_space s)))"

fun starts_with :: "string \<Rightarrow> string \<Rightarrow> bool" where
  "starts_with [] s = True"
| "starts_with (c # cs) [] = False"
| "starts_with (c # cs) (d # ds) = (c = d \<and> starts_with cs ds)"

text \<open>\<^verbatim>\<open>k in s\<close> on strings: \<open>k\<close> occurs in \<open>s\<close> at some position.\<close>

fun str_contains :: "string \<Rightarrow> string \<Rightarrow> bool" where
  "str_contains k [] = (k = [])"
| "str_contains k (d # ds) = (starts_with k (d # ds) \<or> str_contains k ds)"

definition digit_char :: "nat \<Rightarrow> char" where
  "digit_char n = ''0123456789'' ! n"

fun str_nat :: "nat \<Rightarrow> string" where
  "str_nat n = (if n < 10 then [digit_char n] else str_nat (n div 10) @ [digit_char (n mod 10)])"

declare str_nat.simps [simp del]

text \<open>\<^verbatim>\<open>str(i)\<close> on an integer\<close>

definition str_int :: "int \<Rightarrow> string" where
  "str_int i = (if i < 0 then CHR ''-'' # str_nat (nat (- i)) else str_nat (nat i))"

subsection \<open>Floats and the format \<^verbatim>\<open>.2f\<close>\<close>

datatype pyfloat = Finite rat | NegZero | Infinity bool | NaN





subsection \<open>The dataclasses\<close>

record Category =
  cat_categoryID :: int
  cat_name :: string

record Supplier =
  sup_supplierID :: int
  sup_name :: string
  sup_contactInfo :: string

record InventoryItem =
  itemID :: int
  name :: string
  price :: pyfloat
  categoryID :: int
  supplierID :: int
  currentStock :: int
  reorderLevel :: int
  reorderQty :: int

record PurchaseOrder =
  orderID :: int
  orderDate :: string
  po_supplierID :: int
  status :: string
  po_items :: "(int, int) dict"


text \<open>\<^verbatim>\<open>PurchaseOrder.add_item\<close>\<close>

definition po_add_item :: "PurchaseOrder \<Rightarrow> int \<Rightarrow> int \<Rightarrow> PurchaseOrder" where
  "po_add_item po item_id qty =
     po\<lparr>po_items := dict_set item_id (dict_get (po_items po) item_id 0 + max 0 qty) (po_items po)\<rparr>"

subsection \<open>The inventory system\<close>

datatype error = ValueError string | KeyError int

record InventorySystem =
  item_id_count :: int
  cat_id_count :: int
  sup_id_count :: int
  po_id_count :: int
  categories :: "(int, Category) dict"
  suppliers :: "(int, Supplier) dict"
  items :: "(int, InventoryItem) dict"
  orders :: "(int, PurchaseOrder) dict"

type_synonym 'a call = "InventorySystem \<Rightarrow> (error + 'a) \<times> InventorySystem"

text \<open>\<^verbatim>\<open>InventorySystem.__init__\<close>\<close>

definition init_system :: InventorySystem where
  "init_system =
     \<lparr>item_id_count = 1001, cat_id_count = 1, sup_id_count = 1, po_id_count = 5001,
      categories = [], suppliers = [], items = [], orders = []\<rparr>"

definition add_category :: "string \<Rightarrow> int call" where
  "add_category nm s =
     (let cid = cat_id_count s;
          s1 = s\<lparr>cat_id_count := cid + 1\<rparr>
      in (Inr cid,
          s1\<lparr>categories := dict_set cid \<lparr>cat_categoryID = cid, cat_name = nm\<rparr> (categories s1)\<rparr>))"

definition add_supplier :: "string \<Rightarrow> string \<Rightarrow> int call" where
  "add_supplier nm contact s =
     (let sid = sup_id_count s;
          s1 = s\<lparr>sup_id_count := sid + 1\<rparr>
      in (Inr sid,
          s1\<lparr>suppliers :=
               dict_set sid \<lparr>sup_supplierID = sid, sup_name = nm, sup_contactInfo = contact\<rparr>
                 (suppliers s1)\<rparr>))"

definition add_item :: "string \<Rightarrow> pyfloat \<Rightarrow> int \<Rightarrow> int \<Rightarrow> int \<Rightarrow> int \<Rightarrow> int \<Rightarrow> int call" where
  "add_item nm pr category_id supplier_id current_stock reorder_level reorder_qty s =
     (if \<not> dict_contains category_id (categories s)
      then (Inl (ValueError ''Category does not exist''), s)
      else if \<not> dict_contains supplier_id (suppliers s)
      then (Inl (ValueError ''Supplier does not exist''), s)
      else
        let iid = item_id_count s;
            s1 = s\<lparr>item_id_count := iid + 1\<rparr>
        in (Inr iid,
            s1\<lparr>items :=
                 dict_set iid
                   \<lparr>itemID = iid, name = nm, price = pr, categoryID = category_id,
                    supplierID = supplier_id, currentStock = max 0 current_stock,
                    reorderLevel = max 0 reorder_level, reorderQty = max 1 reorder_qty\<rparr>
                   (items s1)\<rparr>))"

definition search_items :: "string \<Rightarrow> InventoryItem list call" where
  "search_items keyword s =
     (let k = strip (lower keyword)
      in (Inr (filter (\<lambda>it. str_contains k (lower (name it))) (dict_values (items s))), s))"

definition add_stock :: "int \<Rightarrow> int \<Rightarrow> unit call" where
  "add_stock item_id qty s =
     (case map_of (items s) item_id of
        None \<Rightarrow> (Inl (ValueError ''Item not found''), s)
      | Some item \<Rightarrow>
          (Inr (),
           s\<lparr>items :=
               dict_set item_id (item\<lparr>currentStock := currentStock item + max 0 qty\<rparr>) (items s)\<rparr>))"

definition consume_stock :: "int \<Rightarrow> int \<Rightarrow> bool call" where
  "consume_stock item_id qty0 s =
     (case map_of (items s) item_id of
        None \<Rightarrow> (Inl (ValueError ''Item not found''), s)
      | Some item \<Rightarrow>
          let qty = max 0 qty0
          in if currentStock item \<ge> qty
             then (Inr True,
                   s\<lparr>items :=
                       dict_set item_id (item\<lparr>currentStock := currentStock item - qty\<rparr>) (items s)\<rparr>)
             else (Inr False, s))"

definition low_stock_items :: "InventoryItem list call" where
  "low_stock_items s =
     (Inr (filter (\<lambda>it. currentStock it \<le> reorderLevel it) (dict_values (items s))), s)"

text \<open>The date string of \<^verbatim>\<open>datetime.now()\<close> is the argument \<open>today\<close>.\<close>

definition create_purchase_order :: "string \<Rightarrow> int \<Rightarrow> int call" where
  "create_purchase_order today supplier_id s =
     (if \<not> dict_contains supplier_id (suppliers s)
      then (Inl (ValueError ''Supplier not found''), s)
      else
        let oid = po_id_count s;
            s1 = s\<lparr>po_id_count := oid + 1\<rparr>;
            po = \<lparr>orderID = oid, orderDate = today, po_supplierID = supplier_id,
                  status = ''OPEN'', po_items = []\<rparr>
        in (Inr oid, s1\<lparr>orders := dict_set oid po (orders s1)\<rparr>))"

text \<open>\<^verbatim>\<open>self.orders[order_id].add_item(item_id, qty)\<close>\<close>

definition order_add_item :: "int \<Rightarrow> int \<Rightarrow> int \<Rightarrow> unit call" where
  "order_add_item order_id item_id qty s =
     (case map_of (orders s) order_id of
        None \<Rightarrow> (Inl (KeyError order_id), s)
      | Some po \<Rightarrow> (Inr (), s\<lparr>orders := dict_set order_id (po_add_item po item_id qty) (orders s)\<rparr>))"

definition create_order_for_item :: "string \<Rightarrow> int \<Rightarrow> int option \<Rightarrow> int call" where
  "create_order_for_item today item_id qty s =
     (case map_of (items s) item_id of
        None \<Rightarrow> (Inl (ValueError ''Item not found''), s)
      | Some item \<Rightarrow>
          (case create_purchase_order today (supplierID item) s of
             (Inl e, s1) \<Rightarrow> (Inl e, s1)
           | (Inr po_id, s1) \<Rightarrow>
               (case order_add_item po_id item_id
                       (case qty of Some q \<Rightarrow> q | None \<Rightarrow> reorderQty item) s1 of
                  (Inl e, s2) \<Rightarrow> (Inl e, s2)
                | (Inr u, s2) \<Rightarrow> (Inr po_id, s2))))"

text \<open>\<^verbatim>\<open>InventorySystem._get_order\<close>\<close>

definition get_order :: "int \<Rightarrow> PurchaseOrder call" where
  "get_order order_id s =
     (case map_of (orders s) order_id of
        None \<Rightarrow> (Inl (ValueError ''Order not found''), s)
      | Some po \<Rightarrow> (Inr po, s))"

text \<open>An assignment to \<^verbatim>\<open>po.status\<close> changes the order stored under \<open>order_id\<close>.\<close>

definition set_status :: "int \<Rightarrow> string \<Rightarrow> InventorySystem \<Rightarrow> InventorySystem" where
  "set_status order_id st s =
     (case map_of (orders s) order_id of
        None \<Rightarrow> s
      | Some po \<Rightarrow> s\<lparr>orders := dict_set order_id (po\<lparr>status := st\<rparr>) (orders s)\<rparr>)"

definition submit_order :: "int \<Rightarrow> unit call" where
  "submit_order order_id s =
     (case get_order order_id s of
        (Inl e, s1) \<Rightarrow> (Inl e, s1)
      | (Inr po, s1) \<Rightarrow> (Inr (), set_status order_id ''SUBMITTED'' s1))"

text \<open>The loop of \<^verbatim>\<open>receive_order\<close> over \<^verbatim>\<open>po.items.items()\<close>\<close>

fun receive_lines :: "(int \<times> int) list \<Rightarrow> (int, InventoryItem) dict \<Rightarrow> (int, InventoryItem) dict" where
  "receive_lines [] d = d"
| "receive_lines ((item_id, qty) # ls) d =
     receive_lines ls
       (case map_of d item_id of
          None \<Rightarrow> d
        | Some item \<Rightarrow> dict_set item_id (item\<lparr>currentStock := currentStock item + qty\<rparr>) d)"

definition receive_order :: "int \<Rightarrow> unit call" where
  "receive_order order_id s =
     (case get_order order_id s of
        (Inl e, s1) \<Rightarrow> (Inl e, s1)
      | (Inr po, s1) \<Rightarrow>
          (Inr (), set_status order_id ''RECEIVED'' (s1\<lparr>items := receive_lines (po_items po) (items s1)\<rparr>)))"

definition cancel_order :: "int \<Rightarrow> unit call" where
  "cancel_order order_id s =
     (case get_order order_id s of
        (Inl e, s1) \<Rightarrow> (Inl e, s1)
      | (Inr po, s1) \<Rightarrow> (Inr (), set_status order_id ''CANCELED'' s1))"

subsection \<open>Reporting\<close>







subsection \<open>Sequences of operations\<close>

datatype op =
    AddCategory string
  | AddSupplier string string
  | AddItem string pyfloat int int int int int
  | AddStock int int
  | ConsumeStock int int
  | CreatePurchaseOrder string int
  | OrderAddItem int int int
  | CreateOrderForItem string int "int option"
  | SubmitOrder int
  | ReceiveOrder int
  | CancelOrder int

datatype ret = RInt int | RBool bool | RNone

definition returning :: "('a \<Rightarrow> ret) \<Rightarrow> (error + 'a) \<times> InventorySystem \<Rightarrow> (error + ret) \<times> InventorySystem" where
  "returning f r = (map_sum id f (fst r), snd r)"

fun exec :: "op \<Rightarrow> ret call" where
  "exec (AddCategory nm) s = returning RInt (add_category nm s)"
| "exec (AddSupplier nm contact) s = returning RInt (add_supplier nm contact s)"
| "exec (AddItem nm pr c sp st rl rq) s = returning RInt (add_item nm pr c sp st rl rq s)"
| "exec (AddStock i q) s = returning (\<lambda>u. RNone) (add_stock i q s)"
| "exec (ConsumeStock i q) s = returning RBool (consume_stock i q s)"
| "exec (CreatePurchaseOrder today sp) s = returning RInt (create_purchase_order today sp s)"
| "exec (OrderAddItem oid i q) s = returning (\<lambda>u. RNone) (order_add_item oid i q s)"
| "exec (CreateOrderForItem today i q) s = returning RInt (create_order_for_item today i q s)"
| "exec (SubmitOrder oid) s = returning (\<lambda>u. RNone) (submit_order oid s)"
| "exec (ReceiveOrder oid) s = returning (\<lambda>u. RNone) (receive_order oid s)"
| "exec (CancelOrder oid) s = returning (\<lambda>u. RNone) (cancel_order oid s)"

text \<open>The state after a sequence of calls; a call that raises is caught by the caller, as
  the menu loop does, and the next call runs on the state the raise left.\<close>

fun run :: "op list \<Rightarrow> InventorySystem \<Rightarrow> InventorySystem" where
  "run [] s = s"
| "run (p # ps) s = run ps (snd (exec p s))"

subsection \<open>Invariants of the reachable states\<close>

text \<open>Stock levels and the quantities of order lines are never negative.\<close>

definition stock_inv :: "InventorySystem \<Rightarrow> bool" where
  "stock_inv s =
     ((\<forall>it \<in> set (dict_values (items s)). 0 \<le> currentStock it) \<and>
      (\<forall>po \<in> set (dict_values (orders s)). \<forall>q \<in> set (dict_values (po_items po)). 0 \<le> q))"

text \<open>Every item refers to a registered supplier and a registered category.\<close>

definition refs_inv :: "InventorySystem \<Rightarrow> bool" where
  "refs_inv s =
     (\<forall>it \<in> set (dict_values (items s)).
        dict_contains (supplierID it) (suppliers s) \<and> dict_contains (categoryID it) (categories s))"

subsection \<open>The scenario of the specification\<close>

text \<open>One category, one supplier and the item Milk (stock 12, reorder level 8, reorder
  quantity 12); five units are consumed, a purchase order for the item is created,
  submitted and received.\<close>

text \<open>The floats \<^verbatim>\<open>1.20\<close> and \<^verbatim>\<open>2.40\<close>, that is the floats nearest to these decimals.\<close>

definition float_1_20 :: pyfloat where
  "float_1_20 = Finite (5404319552844595 / 4503599627370496)"

definition float_2_40 :: pyfloat where
  "float_2_40 = Finite (5404319552844595 / 2251799813685248)"

definition scenario_ops :: "op list" where
  "scenario_ops =
     [AddCategory ''Beverage'', AddSupplier ''Main'' ''main@example.com'',
      AddItem ''Milk'' float_1_20 1 1 12 8 12,
      ConsumeStock 1001 5,
      CreateOrderForItem ''2024-01-01'' 1001 None,
      SubmitOrder 5001,
      ReceiveOrder 5001]"

definition milk :: "int \<Rightarrow> InventoryItem" where
  "milk n = \<lparr>itemID = 1001, name = ''Milk'', price = float_1_20, categoryID = 1, supplierID = 1,
             currentStock = n, reorderLevel = 8, reorderQty = 12\<rparr>"

text \<open>An open order with one line, as \<^verbatim>\<open>create_order_for_item\<close> makes it.\<close>

definition order1 :: PurchaseOrder where
  "order1 = \<lparr>orderID = 5001, orderDate = ''2024-01-01'', po_supplierID = 1, status = ''OPEN'',
             po_items = [(1001, 12)]\<rparr>"

text \<open>Two items and an open order with the lines 1001:5 and 1002:3.\<close>

definition two_line_ops :: "op list" where
  "two_line_ops =
     [AddCategory ''Beverage'', AddCategory ''Food'', AddSupplier ''Main'' ''main@example.com'',
      AddItem ''Milk'' float_1_20 1 1 12 8 12,
      AddItem ''Croissant'' float_2_40 2 1 6 6 24,
      CreatePurchaseOrder ''2024-01-01'' 1,
      OrderAddItem 5001 1001 5,
      OrderAddItem 5001 1002 3]"

definition croissant :: "int \<Rightarrow> InventoryItem" where
  "croissant n = \<lparr>itemID = 1002, name = ''Croissant'', price = float_2_40, categoryID = 2,
                  supplierID = 1, currentStock = n, reorderLevel = 6, reorderQty = 24\<rparr>"

definition order2 :: "string \<Rightarrow> PurchaseOrder" where
  "order2 st = \<lparr>orderID = 5001, orderDate = ''2024-01-01'', po_supplierID = 1, status = st,
                po_items = [(1001, 5), (1002, 3)]\<rparr>"




subsection \<open>The search criterion in the words of the specification\<close>

text \<open>The name of the item, compared case-insensitively, contains the keyword as a
  substring.\<close>

definition name_contains_ci :: "string \<Rightarrow> InventoryItem \<Rightarrow> bool" where
  "name_contains_ci keyword it = sublist (lower keyword) (lower (name it))"

subsection \<open>A price cell in the words of the specification\<close>



section \<open>Properties\<close>

subsection \<open>Unfolding the operations on concrete states\<close>

lemmas scenario_defs =
  scenario_ops_def milk_def init_system_def returning_def add_category_def add_supplier_def
  add_item_def consume_stock_def add_stock_def create_purchase_order_def order_add_item_def
  create_order_for_item_def get_order_def set_status_def submit_order_def receive_order_def
  cancel_order_def po_add_item_def dict_get_def dict_values_def dict_contains_def Let_def

subsection \<open>Dictionaries\<close>

lemma map_of_dict_set: "map_of (dict_set k v d) = (map_of d)(k \<mapsto> v)"
  by (induction d) (auto simp: fun_eq_iff)

lemma keys_dict_set: "set (map fst (dict_set k v d)) = insert k (set (map fst d))"
  by (induction d) auto

lemma keys_dict_set_present: "map_of d k = Some w \<Longrightarrow> map fst (dict_set k v d) = map fst d"
  by (induction d) (auto split: if_splits)

lemma dict_contains_map_of: "dict_contains k d \<longleftrightarrow> map_of d k \<noteq> None"
  by (simp add: dict_contains_def map_of_eq_None_iff)

lemma dict_contains_dict_set: "dict_contains j (dict_set k v d) \<longleftrightarrow> j = k \<or> dict_contains j d"
  by (simp add: dict_contains_map_of map_of_dict_set)

lemma values_dict_set: "set (dict_values (dict_set k v d)) \<subseteq> insert v (set (dict_values d))"
  by (induction d) (auto simp: dict_values_def)

lemma map_of_in_values: "map_of d k = Some v \<Longrightarrow> v \<in> set (dict_values d)"
  by (auto simp: dict_values_def dest!: map_of_SomeD intro: rev_image_eqI)

lemma values_dict_set_P:
  "\<forall>x \<in> set (dict_values d). P x \<Longrightarrow> P v \<Longrightarrow> \<forall>x \<in> set (dict_values (dict_set k v d)). P x"
  using values_dict_set [of k v d] by auto

lemma receive_lines_nonneg:
  "\<forall>it \<in> set (dict_values d). 0 \<le> currentStock it \<Longrightarrow> \<forall>q \<in> set (dict_values ls). 0 \<le> q \<Longrightarrow>
   \<forall>it \<in> set (dict_values (receive_lines ls d)). 0 \<le> currentStock it"
proof (induction ls arbitrary: d)
  case Nil
  then show ?case by simp
next
  case (Cons l ls)
  obtain i q where l: "l = (i, q)" by (cases l)
  from Cons.prems(2) l have q: "0 \<le> q" and rest: "\<forall>q \<in> set (dict_values ls). 0 \<le> q"
    by (auto simp: dict_values_def)
  show ?case
  proof (cases "map_of d i")
    case None
    with Cons.IH [OF Cons.prems(1) rest] l show ?thesis by simp
  next
    case (Some it)
    from map_of_in_values [OF Some] Cons.prems(1) have "0 \<le> currentStock it" by blast
    with q have "0 \<le> currentStock (it\<lparr>currentStock := currentStock it + q\<rparr>)" by simp
    from values_dict_set_P [where P = "\<lambda>x. 0 \<le> currentStock x", OF Cons.prems(1) this]
    have "\<forall>x \<in> set (dict_values (dict_set i (it\<lparr>currentStock := currentStock it + q\<rparr>) d)). 0 \<le> currentStock x" .
    from Cons.IH [OF this rest] l Some show ?thesis by simp
  qed
qed

lemma po_add_item_nonneg:
  "\<forall>q \<in> set (dict_values (po_items po)). 0 \<le> q \<Longrightarrow>
   \<forall>q \<in> set (dict_values (po_items (po_add_item po i n))). 0 \<le> q"
proof -
  assume a: "\<forall>q \<in> set (dict_values (po_items po)). 0 \<le> q"
  have "0 \<le> dict_get (po_items po) i 0"
    using a map_of_in_values [of "po_items po" i] by (auto simp: dict_get_def split: option.splits)
  then have "0 \<le> dict_get (po_items po) i 0 + max 0 n" by simp
  from values_dict_set_P [where P = "\<lambda>x. 0 \<le> x", OF a this]
  show ?thesis by (simp add: po_add_item_def)
qed

lemma stock_inv_set_status: "stock_inv s \<Longrightarrow> stock_inv (set_status oid st s)"
proof -
  assume a: "stock_inv s"
  show ?thesis
  proof (cases "map_of (orders s) oid")
    case None
    with a show ?thesis by (simp add: set_status_def)
  next
    case (Some po)
    from a map_of_in_values [OF Some] have "\<forall>q \<in> set (dict_values (po_items (po\<lparr>status := st\<rparr>))). 0 \<le> q"
      by (auto simp: stock_inv_def)
    from values_dict_set_P [where P = "\<lambda>po. \<forall>q \<in> set (dict_values (po_items po)). 0 \<le> q", OF _ this, of "orders s" oid]
      a Some show ?thesis by (simp add: set_status_def stock_inv_def)
  qed
qed

subsection \<open>Stock levels are preserved non-negative by every method\<close>

lemma stock_inv_add_item: "stock_inv s \<Longrightarrow> stock_inv (snd (add_item nm pr c sp st rl rq s))"
proof -
  assume a: "stock_inv s"
  let ?it = "\<lparr>itemID = item_id_count s, name = nm, price = pr, categoryID = c,
              supplierID = sp, currentStock = max 0 st,
              reorderLevel = max 0 rl, reorderQty = max 1 rq\<rparr>"
  have "0 \<le> currentStock ?it" by simp
  from values_dict_set_P [where P = "\<lambda>x. 0 \<le> currentStock x", OF _ this, of "items s" "item_id_count s"] a
  show ?thesis by (simp add: add_item_def stock_inv_def Let_def)
qed

lemma stock_inv_add_stock: "stock_inv s \<Longrightarrow> stock_inv (snd (add_stock i q s))"
proof -
  assume a: "stock_inv s"
  show ?thesis
  proof (cases "map_of (items s) i")
    case None
    with a show ?thesis by (simp add: add_stock_def)
  next
    case (Some it)
    from a map_of_in_values [OF Some] have "0 \<le> currentStock it" by (auto simp: stock_inv_def)
    then have "0 \<le> currentStock (it\<lparr>currentStock := currentStock it + max 0 q\<rparr>)" by simp
    from values_dict_set_P [where P = "\<lambda>x. 0 \<le> currentStock x", OF _ this, of "items s" i] a Some
    show ?thesis by (simp add: add_stock_def stock_inv_def)
  qed
qed

lemma stock_inv_consume_stock: "stock_inv s \<Longrightarrow> stock_inv (snd (consume_stock i q s))"
proof -
  assume a: "stock_inv s"
  show ?thesis
  proof (cases "map_of (items s) i")
    case None
    with a show ?thesis by (simp add: consume_stock_def)
  next
    case (Some it)
    show ?thesis
    proof (cases "max 0 q \<le> currentStock it")
      case True
      then have "0 \<le> currentStock (it\<lparr>currentStock := currentStock it - max 0 q\<rparr>)" by simp
      from values_dict_set_P [where P = "\<lambda>x. 0 \<le> currentStock x", OF _ this, of "items s" i] a Some True
      show ?thesis by (simp add: consume_stock_def stock_inv_def Let_def)
    next
      case False
      then have "consume_stock i q s = (Inr False, s)"
        using Some by (simp add: consume_stock_def Let_def)
      with a show ?thesis by simp
    qed
  qed
qed

lemma stock_inv_create_purchase_order:
  "stock_inv s \<Longrightarrow> stock_inv (snd (create_purchase_order today sp s))"
proof -
  assume a: "stock_inv s"
  let ?po = "\<lparr>orderID = po_id_count s, orderDate = today, po_supplierID = sp,
              status = ''OPEN'', po_items = []\<rparr>"
  have "\<forall>q \<in> set (dict_values (po_items ?po)). 0 \<le> q" by (simp add: dict_values_def)
  from values_dict_set_P [where P = "\<lambda>po. \<forall>q \<in> set (dict_values (po_items po)). 0 \<le> q", OF _ this,
      of "orders s" "po_id_count s"] a
  show ?thesis by (simp add: create_purchase_order_def stock_inv_def Let_def)
qed

lemma stock_inv_order_add_item: "stock_inv s \<Longrightarrow> stock_inv (snd (order_add_item oid i q s))"
proof -
  assume a: "stock_inv s"
  show ?thesis
  proof (cases "map_of (orders s) oid")
    case None
    with a show ?thesis by (simp add: order_add_item_def)
  next
    case (Some po)
    from a map_of_in_values [OF Some] have "\<forall>q \<in> set (dict_values (po_items po)). 0 \<le> q"
      by (auto simp: stock_inv_def)
    from values_dict_set_P [where P = "\<lambda>po. \<forall>q \<in> set (dict_values (po_items po)). 0 \<le> q",
        OF _ po_add_item_nonneg [OF this], of "orders s" oid i q] a Some
    show ?thesis by (simp add: order_add_item_def stock_inv_def)
  qed
qed

lemma stock_inv_create_order_for_item:
  "stock_inv s \<Longrightarrow> stock_inv (snd (create_order_for_item today i q s))"
proof -
  assume a: "stock_inv s"
  show ?thesis
  proof (cases "map_of (items s) i")
    case None
    with a show ?thesis by (simp add: create_order_for_item_def)
  next
    case (Some it)
    obtain r1 s1 where c: "create_purchase_order today (supplierID it) s = (r1, s1)"
      by (cases "create_purchase_order today (supplierID it) s")
    from stock_inv_create_purchase_order [OF a, of today "supplierID it"] c
    have s1: "stock_inv s1" by simp
    show ?thesis
    proof (cases r1)
      case (Inl e)
      with Some c s1 show ?thesis by (simp add: create_order_for_item_def)
    next
      case (Inr po_id)
      let ?n = "case q of Some q \<Rightarrow> q | None \<Rightarrow> reorderQty it"
      obtain r2 s2 where d: "order_add_item po_id i ?n s1 = (r2, s2)"
        by (cases "order_add_item po_id i ?n s1")
      from stock_inv_order_add_item [OF s1, of po_id i ?n] d have "stock_inv s2" by simp
      with Some c Inr d show ?thesis
        by (cases r2) (simp_all add: create_order_for_item_def)
    qed
  qed
qed

lemma get_order_state: "snd (get_order oid s) = s"
  by (simp add: get_order_def split: option.splits)

lemma get_order_cases:
  "get_order oid s = (case map_of (orders s) oid of
       None \<Rightarrow> (Inl (ValueError ''Order not found''), s) | Some po \<Rightarrow> (Inr po, s))"
  by (simp add: get_order_def)

lemma stock_inv_submit_order: "stock_inv s \<Longrightarrow> stock_inv (snd (submit_order oid s))"
  by (cases "map_of (orders s) oid") (simp_all add: submit_order_def get_order_def stock_inv_set_status)

lemma stock_inv_cancel_order: "stock_inv s \<Longrightarrow> stock_inv (snd (cancel_order oid s))"
  by (cases "map_of (orders s) oid") (simp_all add: cancel_order_def get_order_def stock_inv_set_status)

lemma stock_inv_receive_order: "stock_inv s \<Longrightarrow> stock_inv (snd (receive_order oid s))"
proof -
  assume a: "stock_inv s"
  show ?thesis
  proof (cases "map_of (orders s) oid")
    case None
    with a show ?thesis by (simp add: receive_order_def get_order_def)
  next
    case (Some po)
    from a map_of_in_values [OF Some] have "\<forall>q \<in> set (dict_values (po_items po)). 0 \<le> q"
      by (auto simp: stock_inv_def)
    from receive_lines_nonneg [OF _ this, of "items s"] a
    have "stock_inv (s\<lparr>items := receive_lines (po_items po) (items s)\<rparr>)"
      by (simp add: stock_inv_def)
    from stock_inv_set_status [OF this] Some show ?thesis
      by (simp add: receive_order_def get_order_def)
  qed
qed

lemma stock_inv_add_category: "stock_inv s \<Longrightarrow> stock_inv (snd (add_category nm s))"
  by (simp add: add_category_def stock_inv_def Let_def)

lemma stock_inv_add_supplier: "stock_inv s \<Longrightarrow> stock_inv (snd (add_supplier nm c s))"
  by (simp add: add_supplier_def stock_inv_def Let_def)

lemma stock_inv_exec: "stock_inv s \<Longrightarrow> stock_inv (snd (exec p s))"
  by (cases p)
    (simp_all add: returning_def stock_inv_add_category stock_inv_add_supplier stock_inv_add_item
      stock_inv_add_stock stock_inv_consume_stock stock_inv_create_purchase_order
      stock_inv_order_add_item stock_inv_create_order_for_item stock_inv_submit_order
      stock_inv_receive_order stock_inv_cancel_order)

lemma stock_inv_run: "stock_inv s \<Longrightarrow> stock_inv (run ps s)"
  by (induction ps arbitrary: s) (simp_all add: stock_inv_exec)

lemma stock_inv_init: "stock_inv init_system"
  by (simp add: stock_inv_def init_system_def dict_values_def)

subsection \<open>C1: stock levels are never negative\<close>

text \<open>
  C1. For every sequence \<open>ps\<close> of operations applied to the initially empty system, and
  every prefix of it (the state before and after each operation), every stored item has a
  current stock of at least zero.
\<close>

theorem currentStock_never_negative:
  "\<forall>it \<in> set (dict_values (items (run (take n ps) init_system))). 0 \<le> currentStock it"
  using stock_inv_run [OF stock_inv_init, of "take n ps"] by (simp add: stock_inv_def)

theorem currentStock_never_negative_witness:
  "milk 7 \<in> set (dict_values (items (run (take 4 scenario_ops) init_system))) \<and>
   0 \<le> currentStock (milk 7)"
proof -
  have "milk 7 \<in> set (dict_values (items (run (take 4 scenario_ops) init_system)))"
    by (simp add: scenario_defs)
  with currentStock_never_negative [of 4 scenario_ops] show ?thesis by blast
qed

subsection \<open>C7: adding a line to a purchase order\<close>

text \<open>
  C7. \<^verbatim>\<open>PurchaseOrder.add_item\<close> clamps the quantity to at least zero; when the item
  already has a line, the clamped quantity is added to the line's quantity; when it has
  none, a line with the clamped quantity is created. The other lines and the other fields
  of the order are unchanged.
\<close>

theorem po_add_item_accumulates:
  "(map_of (po_items po) item_id = Some q \<longrightarrow>
      map_of (po_items (po_add_item po item_id qty)) item_id = Some (q + max 0 qty)) \<and>
   (map_of (po_items po) item_id = None \<longrightarrow>
      map_of (po_items (po_add_item po item_id qty)) item_id = Some (max 0 qty)) \<and>
   (\<forall>j. j \<noteq> item_id \<longrightarrow>
      map_of (po_items (po_add_item po item_id qty)) j = map_of (po_items po) j) \<and>
   po_add_item po item_id qty = po\<lparr>po_items := po_items (po_add_item po item_id qty)\<rparr>"
  by (simp add: po_add_item_def map_of_dict_set dict_get_def)

theorem po_add_item_accumulates_witness:
  "map_of (po_items order1) 1001 = Some 12 \<and>
   map_of (po_items (po_add_item order1 1001 5)) 1001 = Some 17 \<and>
   map_of (po_items (po_add_item order1 1001 (- 3))) 1001 = Some 12 \<and>
   map_of (po_items order1) 1002 = None \<and>
   map_of (po_items (po_add_item order1 1002 (- 3))) 1002 = Some 0 \<and>
   (1001::int) \<noteq> 1002 \<and>
   map_of (po_items (po_add_item order1 1002 4)) 1001 = Some 12"
  using po_add_item_accumulates [of order1 1001 12 5]
    po_add_item_accumulates [of order1 1001 12 "- 3"]
    po_add_item_accumulates [of order1 1002 0 "- 3"]
    po_add_item_accumulates [of order1 1002 0 4]
  by (simp add: order1_def)

subsection \<open>C2: consuming stock\<close>

text \<open>
  C2. \<^verbatim>\<open>consume_stock\<close> raises \<^verbatim>\<open>ValueError("Item not found")\<close> for an unknown item and
  changes nothing. For a known item it clamps the quantity to at least zero; if the current
  stock is at least the clamped quantity it returns true, decrements that item's stock by
  the clamped quantity and changes nothing else; otherwise it returns false and the state
  is unchanged.
\<close>

theorem consume_stock_spec:
  "(\<not> dict_contains item_id (items s) \<longrightarrow>
      consume_stock item_id qty s = (Inl (ValueError ''Item not found''), s)) \<and>
   (map_of (items s) item_id = Some item \<and> max 0 qty \<le> currentStock item \<longrightarrow>
      fst (consume_stock item_id qty s) = Inr True \<and>
      map_of (items (snd (consume_stock item_id qty s))) item_id =
        Some (item\<lparr>currentStock := currentStock item - max 0 qty\<rparr>) \<and>
      (\<forall>j. j \<noteq> item_id \<longrightarrow>
         map_of (items (snd (consume_stock item_id qty s))) j = map_of (items s) j) \<and>
      map fst (items (snd (consume_stock item_id qty s))) = map fst (items s) \<and>
      snd (consume_stock item_id qty s) = s\<lparr>items := items (snd (consume_stock item_id qty s))\<rparr>) \<and>
   (map_of (items s) item_id = Some item \<and> currentStock item < max 0 qty \<longrightarrow>
      consume_stock item_id qty s = (Inr False, s))"
  by (auto simp: consume_stock_def dict_contains_map_of map_of_dict_set keys_dict_set_present Let_def)

theorem consume_stock_spec_witness:
  "\<not> dict_contains 7 (items (run (take 3 scenario_ops) init_system)) \<and>
   consume_stock 7 1 (run (take 3 scenario_ops) init_system) =
     (Inl (ValueError ''Item not found''), run (take 3 scenario_ops) init_system) \<and>
   map_of (items (run (take 3 scenario_ops) init_system)) 1001 = Some (milk 12) \<and>
   max 0 5 \<le> currentStock (milk 12) \<and>
   fst (consume_stock 1001 5 (run (take 3 scenario_ops) init_system)) = Inr True \<and>
   map_of (items (snd (consume_stock 1001 5 (run (take 3 scenario_ops) init_system)))) 1001 =
     Some (milk 7) \<and>
   currentStock (milk 12) < max 0 13 \<and>
   consume_stock 1001 13 (run (take 3 scenario_ops) init_system) =
     (Inr False, run (take 3 scenario_ops) init_system)"
proof -
  let ?s = "run (take 3 scenario_ops) init_system"
  have a: "\<not> dict_contains 7 (items ?s)" by (simp add: scenario_defs)
  have b: "map_of (items ?s) 1001 = Some (milk 12)" by (simp add: scenario_defs)
  have c: "milk 12\<lparr>currentStock := currentStock (milk 12) - max 0 5\<rparr> = milk 7"
    by (simp add: milk_def)
  have d: "max 0 5 \<le> currentStock (milk 12)" "currentStock (milk 12) < max 0 13"
    by (simp_all add: milk_def)
  from consume_stock_spec [of 7 ?s 1 "milk 12"] a
  have 1: "consume_stock 7 1 ?s = (Inl (ValueError ''Item not found''), ?s)" by blast
  from consume_stock_spec [of 1001 ?s 5 "milk 12"] b c d
  have 2: "fst (consume_stock 1001 5 ?s) = Inr True \<and>
      map_of (items (snd (consume_stock 1001 5 ?s))) 1001 = Some (milk 7)" by simp
  from consume_stock_spec [of 1001 ?s 13 "milk 12"] b d
  have 3: "consume_stock 1001 13 ?s = (Inr False, ?s)" by blast
  from a b d 1 2 3 show ?thesis by blast
qed

lemma dict_set_same: "map_of d k = Some v \<Longrightarrow> dict_set k v d = d"
  by (induction d) (auto split: if_splits)

lemma dict_set_twice: "dict_set k v (dict_set k w d) = dict_set k v d"
  by (induction d) auto

subsection \<open>C5: adding an item\<close>

text \<open>
  C5. \<^verbatim>\<open>add_item\<close> with a category that is not registered raises
  \<^verbatim>\<open>ValueError("Category does not exist")\<close>, with a registered category and a supplier that
  is not registered it raises \<^verbatim>\<open>ValueError("Supplier does not exist")\<close>; in both cases the
  state is unchanged, so no item is inserted. When both are registered it returns the next
  item identifier and stores under it an item whose current stock and reorder level are
  the arguments clamped to at least zero and whose reorder quantity is the argument clamped
  to at least one; only the item counter and that entry change.
\<close>

theorem add_item_spec:
  "(\<not> dict_contains category_id (categories s) \<longrightarrow>
      add_item nm pr category_id supplier_id current_stock reorder_level reorder_qty s =
        (Inl (ValueError ''Category does not exist''), s)) \<and>
   (dict_contains category_id (categories s) \<and> \<not> dict_contains supplier_id (suppliers s) \<longrightarrow>
      add_item nm pr category_id supplier_id current_stock reorder_level reorder_qty s =
        (Inl (ValueError ''Supplier does not exist''), s)) \<and>
   (dict_contains category_id (categories s) \<and> dict_contains supplier_id (suppliers s) \<longrightarrow>
      (let r = add_item nm pr category_id supplier_id current_stock reorder_level reorder_qty s;
           it = \<lparr>itemID = item_id_count s, name = nm, price = pr, categoryID = category_id,
                 supplierID = supplier_id, currentStock = max 0 current_stock,
                 reorderLevel = max 0 reorder_level, reorderQty = max 1 reorder_qty\<rparr>
       in fst r = Inr (item_id_count s) \<and>
          map_of (items (snd r)) (item_id_count s) = Some it \<and>
          0 \<le> currentStock it \<and> 0 \<le> reorderLevel it \<and> 1 \<le> reorderQty it \<and>
          (\<forall>j. j \<noteq> item_id_count s \<longrightarrow> map_of (items (snd r)) j = map_of (items s) j) \<and>
          snd r = s\<lparr>item_id_count := item_id_count s + 1, items := items (snd r)\<rparr>))"
  by (simp add: add_item_def map_of_dict_set Let_def)

theorem add_item_spec_witness:
  "\<not> dict_contains 9 (categories (run (take 2 scenario_ops) init_system)) \<and>
   add_item ''Tea'' (Finite 2) 9 1 3 4 5 (run (take 2 scenario_ops) init_system) =
     (Inl (ValueError ''Category does not exist''), run (take 2 scenario_ops) init_system) \<and>
   dict_contains 1 (categories (run (take 2 scenario_ops) init_system)) \<and>
   \<not> dict_contains 9 (suppliers (run (take 2 scenario_ops) init_system)) \<and>
   add_item ''Tea'' (Finite 2) 1 9 3 4 5 (run (take 2 scenario_ops) init_system) =
     (Inl (ValueError ''Supplier does not exist''), run (take 2 scenario_ops) init_system) \<and>
   dict_contains 1 (suppliers (run (take 2 scenario_ops) init_system)) \<and>
   fst (add_item ''Tea'' (Finite 2) 1 1 (- 3) (- 4) 0 (run (take 2 scenario_ops) init_system)) = Inr 1001 \<and>
   map_of (items (snd (add_item ''Tea'' (Finite 2) 1 1 (- 3) (- 4) 0 (run (take 2 scenario_ops) init_system))))
     1001 =
     Some \<lparr>itemID = 1001, name = ''Tea'', price = Finite 2, categoryID = 1, supplierID = 1,
           currentStock = 0, reorderLevel = 0, reorderQty = 1\<rparr>"
proof -
  let ?s = "run (take 2 scenario_ops) init_system"
  have a: "\<not> dict_contains 9 (categories ?s)" "dict_contains 1 (categories ?s)"
    "\<not> dict_contains 9 (suppliers ?s)" "dict_contains 1 (suppliers ?s)"
    "item_id_count ?s = 1001"
    by (simp_all add: scenario_defs)
  from add_item_spec [of 9 ?s "''Tea''" "Finite 2" 1 3 4 5] a
  have 1: "add_item ''Tea'' (Finite 2) 9 1 3 4 5 ?s = (Inl (ValueError ''Category does not exist''), ?s)"
    by blast
  from add_item_spec [of 1 ?s "''Tea''" "Finite 2" 9 3 4 5] a
  have 2: "add_item ''Tea'' (Finite 2) 1 9 3 4 5 ?s = (Inl (ValueError ''Supplier does not exist''), ?s)"
    by blast
  from add_item_spec [of 1 ?s "''Tea''" "Finite 2" 1 "- 3" "- 4" 0] a
  have 3: "fst (add_item ''Tea'' (Finite 2) 1 1 (- 3) (- 4) 0 ?s) = Inr 1001 \<and>
    map_of (items (snd (add_item ''Tea'' (Finite 2) 1 1 (- 3) (- 4) 0 ?s))) 1001 =
     Some \<lparr>itemID = 1001, name = ''Tea'', price = Finite 2, categoryID = 1, supplierID = 1,
           currentStock = 0, reorderLevel = 0, reorderQty = 1\<rparr>"
    by (simp add: Let_def)
  from a 1 2 3 show ?thesis by blast
qed

subsection \<open>C6: adding and then consuming the same quantity\<close>

text \<open>
  C6. In every state reached from the empty system, for every stored item and every
  integer quantity, \<^verbatim>\<open>add_stock\<close> followed by \<^verbatim>\<open>consume_stock\<close> of the same
  quantity succeeds, the second call returns true, and the item's current stock (indeed the
  whole state) is what it was before the two calls.
\<close>

theorem add_stock_consume_stock_roundtrip:
  "map_of (items (run ps init_system)) item_id = Some item \<Longrightarrow>
   fst (add_stock item_id qty (run ps init_system)) = Inr () \<and>
   fst (consume_stock item_id qty (snd (add_stock item_id qty (run ps init_system)))) = Inr True \<and>
   map_of (items (snd (consume_stock item_id qty (snd (add_stock item_id qty (run ps init_system))))))
     item_id = Some item \<and>
   snd (consume_stock item_id qty (snd (add_stock item_id qty (run ps init_system)))) =
     run ps init_system"
proof -
  let ?s = "run ps init_system"
  assume a: "map_of (items ?s) item_id = Some item"
  from stock_inv_run [OF stock_inv_init, of ps] map_of_in_values [OF a]
  have nn: "0 \<le> currentStock item" by (auto simp: stock_inv_def)
  let ?item1 = "item\<lparr>currentStock := currentStock item + max 0 qty\<rparr>"
  let ?s1 = "?s\<lparr>items := dict_set item_id ?item1 (items ?s)\<rparr>"
  from a have 1: "add_stock item_id qty ?s = (Inr (), ?s1)" by (simp add: add_stock_def)
  have m1: "map_of (items ?s1) item_id = Some ?item1" by (simp add: map_of_dict_set)
  from nn have ge: "max 0 qty \<le> currentStock ?item1" by simp
  have restore: "?item1\<lparr>currentStock := currentStock ?item1 - max 0 qty\<rparr> = item" by simp
  from m1 ge have 2: "consume_stock item_id qty ?s1 =
      (Inr True, ?s1\<lparr>items := dict_set item_id
         (?item1\<lparr>currentStock := currentStock ?item1 - max 0 qty\<rparr>) (items ?s1)\<rparr>)"
    by (simp add: consume_stock_def Let_def del: max.bounded_iff)
  have "dict_set item_id item (items ?s1) = items ?s"
    using a by (simp add: dict_set_twice dict_set_same)
  with 2 restore have 3: "consume_stock item_id qty ?s1 = (Inr True, ?s)" by simp
  from 1 3 a show ?thesis by simp
qed

theorem add_stock_consume_stock_roundtrip_witness:
  "map_of (items (run scenario_ops init_system)) 1001 = Some (milk 19) \<and>
   fst (consume_stock 1001 (- 4) (snd (add_stock 1001 (- 4) (run scenario_ops init_system)))) = Inr True \<and>
   snd (consume_stock 1001 30 (snd (add_stock 1001 30 (run scenario_ops init_system)))) =
     run scenario_ops init_system"
proof -
  have a: "map_of (items (run scenario_ops init_system)) 1001 = Some (milk 19)"
    by (simp add: scenario_defs)
  from add_stock_consume_stock_roundtrip [OF a, of "- 4"]
    add_stock_consume_stock_roundtrip [OF a, of 30] a
  show ?thesis by blast
qed

subsection \<open>References to suppliers and categories are preserved by every method\<close>

lemma receive_lines_preserves:
  assumes upd: "\<And>it n. P it \<Longrightarrow> P (it\<lparr>currentStock := n\<rparr>)"
  shows "\<forall>it \<in> set (dict_values d). P it \<Longrightarrow> \<forall>it \<in> set (dict_values (receive_lines ls d)). P it"
proof (induction ls arbitrary: d)
  case Nil
  then show ?case by simp
next
  case (Cons l ls)
  obtain i q where l: "l = (i, q)" by (cases l)
  show ?case
  proof (cases "map_of d i")
    case None
    with Cons.IH [OF Cons.prems] l show ?thesis by simp
  next
    case (Some it)
    from map_of_in_values [OF Some] Cons.prems have "P it" by blast
    from values_dict_set_P [where P = P, OF Cons.prems upd [OF this]]
    have "\<forall>x \<in> set (dict_values (dict_set i (it\<lparr>currentStock := currentStock it + q\<rparr>) d)). P x" .
    from Cons.IH [OF this] l Some show ?thesis by simp
  qed
qed

lemma refs_inv_frame:
  "items s' = items s \<Longrightarrow> suppliers s' = suppliers s \<Longrightarrow> categories s' = categories s \<Longrightarrow>
   refs_inv s' = refs_inv s"
  by (simp add: refs_inv_def)

lemma refs_inv_items:
  assumes "refs_inv s" and "map_of (items s) i = Some it"
  shows "refs_inv (s\<lparr>items := dict_set i (it\<lparr>currentStock := n\<rparr>) (items s)\<rparr>)"
proof -
  let ?P = "\<lambda>x. dict_contains (supplierID x) (suppliers s) \<and> dict_contains (categoryID x) (categories s)"
  from assms map_of_in_values [OF assms(2)] have "?P (it\<lparr>currentStock := n\<rparr>)"
    by (auto simp: refs_inv_def)
  from values_dict_set_P [where P = ?P, OF _ this, of "items s" i] assms(1)
  show ?thesis by (simp add: refs_inv_def)
qed

lemma refs_inv_add_category: "refs_inv s \<Longrightarrow> refs_inv (snd (add_category nm s))"
  by (simp add: add_category_def refs_inv_def Let_def dict_contains_dict_set)

lemma refs_inv_add_supplier: "refs_inv s \<Longrightarrow> refs_inv (snd (add_supplier nm c s))"
  by (simp add: add_supplier_def refs_inv_def Let_def dict_contains_dict_set)

lemma refs_inv_add_item: "refs_inv s \<Longrightarrow> refs_inv (snd (add_item nm pr c sp st rl rq s))"
proof -
  assume a: "refs_inv s"
  show ?thesis
  proof (cases "dict_contains c (categories s) \<and> dict_contains sp (suppliers s)")
    case False
    with a show ?thesis by (auto simp: add_item_def)
  next
    case True
    let ?P = "\<lambda>x. dict_contains (supplierID x) (suppliers s) \<and> dict_contains (categoryID x) (categories s)"
    let ?it = "\<lparr>itemID = item_id_count s, name = nm, price = pr, categoryID = c,
              supplierID = sp, currentStock = max 0 st,
              reorderLevel = max 0 rl, reorderQty = max 1 rq\<rparr>"
    from True have "?P ?it" by simp
    from values_dict_set_P [where P = ?P, OF _ this, of "items s" "item_id_count s"] a True
    show ?thesis by (simp add: add_item_def refs_inv_def Let_def)
  qed
qed

lemma refs_inv_add_stock: "refs_inv s \<Longrightarrow> refs_inv (snd (add_stock i q s))"
  by (cases "map_of (items s) i") (simp_all add: add_stock_def refs_inv_items)

lemma refs_inv_consume_stock: "refs_inv s \<Longrightarrow> refs_inv (snd (consume_stock i q s))"
  by (cases "map_of (items s) i") (simp_all add: consume_stock_def refs_inv_items Let_def)

lemma create_purchase_order_frame:
  "items (snd (create_purchase_order today sp s)) = items s \<and>
   suppliers (snd (create_purchase_order today sp s)) = suppliers s \<and>
   categories (snd (create_purchase_order today sp s)) = categories s"
  by (simp add: create_purchase_order_def Let_def)

lemma order_add_item_frame:
  "items (snd (order_add_item oid i q s)) = items s \<and>
   suppliers (snd (order_add_item oid i q s)) = suppliers s \<and>
   categories (snd (order_add_item oid i q s)) = categories s"
  by (simp add: order_add_item_def split: option.splits)

lemma set_status_frame:
  "items (set_status oid st s) = items s \<and>
   suppliers (set_status oid st s) = suppliers s \<and>
   categories (set_status oid st s) = categories s"
  by (simp add: set_status_def split: option.splits)

lemma refs_inv_create_purchase_order:
  "refs_inv s \<Longrightarrow> refs_inv (snd (create_purchase_order today sp s))"
  using refs_inv_frame [of "snd (create_purchase_order today sp s)" s] create_purchase_order_frame
  by simp

lemma refs_inv_order_add_item: "refs_inv s \<Longrightarrow> refs_inv (snd (order_add_item oid i q s))"
  using refs_inv_frame [of "snd (order_add_item oid i q s)" s] order_add_item_frame by simp

lemma refs_inv_set_status: "refs_inv s \<Longrightarrow> refs_inv (set_status oid st s)"
  using refs_inv_frame [of "set_status oid st s" s] set_status_frame by simp

lemma refs_inv_create_order_for_item:
  "refs_inv s \<Longrightarrow> refs_inv (snd (create_order_for_item today i q s))"
proof -
  assume a: "refs_inv s"
  show ?thesis
  proof (cases "map_of (items s) i")
    case None
    with a show ?thesis by (simp add: create_order_for_item_def)
  next
    case (Some it)
    obtain r1 s1 where c: "create_purchase_order today (supplierID it) s = (r1, s1)"
      by (cases "create_purchase_order today (supplierID it) s")
    from refs_inv_create_purchase_order [OF a, of today "supplierID it"] c
    have s1: "refs_inv s1" by simp
    show ?thesis
    proof (cases r1)
      case (Inl e)
      with Some c s1 show ?thesis by (simp add: create_order_for_item_def)
    next
      case (Inr po_id)
      let ?n = "case q of Some q \<Rightarrow> q | None \<Rightarrow> reorderQty it"
      obtain r2 s2 where d: "order_add_item po_id i ?n s1 = (r2, s2)"
        by (cases "order_add_item po_id i ?n s1")
      from refs_inv_order_add_item [OF s1, of po_id i ?n] d have "refs_inv s2" by simp
      with Some c Inr d show ?thesis
        by (cases r2) (simp_all add: create_order_for_item_def)
    qed
  qed
qed

lemma refs_inv_submit_order: "refs_inv s \<Longrightarrow> refs_inv (snd (submit_order oid s))"
  by (cases "map_of (orders s) oid") (simp_all add: submit_order_def get_order_def refs_inv_set_status)

lemma refs_inv_cancel_order: "refs_inv s \<Longrightarrow> refs_inv (snd (cancel_order oid s))"
  by (cases "map_of (orders s) oid") (simp_all add: cancel_order_def get_order_def refs_inv_set_status)

lemma refs_inv_receive_order: "refs_inv s \<Longrightarrow> refs_inv (snd (receive_order oid s))"
proof -
  assume a: "refs_inv s"
  show ?thesis
  proof (cases "map_of (orders s) oid")
    case None
    with a show ?thesis by (simp add: receive_order_def get_order_def)
  next
    case (Some po)
    let ?P = "\<lambda>x. dict_contains (supplierID x) (suppliers s) \<and> dict_contains (categoryID x) (categories s)"
    from a have "\<forall>it \<in> set (dict_values (items s)). ?P it" by (simp add: refs_inv_def)
    then have "\<forall>it \<in> set (dict_values (receive_lines (po_items po) (items s))). ?P it"
      by (rule receive_lines_preserves [where P = ?P, rotated]) simp
    then have "refs_inv (s\<lparr>items := receive_lines (po_items po) (items s)\<rparr>)"
      by (simp add: refs_inv_def)
    from refs_inv_set_status [OF this] Some show ?thesis
      by (simp add: receive_order_def get_order_def)
  qed
qed

lemma refs_inv_exec: "refs_inv s \<Longrightarrow> refs_inv (snd (exec p s))"
  by (cases p)
    (simp_all add: returning_def refs_inv_add_category refs_inv_add_supplier refs_inv_add_item
      refs_inv_add_stock refs_inv_consume_stock refs_inv_create_purchase_order
      refs_inv_order_add_item refs_inv_create_order_for_item refs_inv_submit_order
      refs_inv_receive_order refs_inv_cancel_order)

lemma refs_inv_run: "refs_inv s \<Longrightarrow> refs_inv (run ps s)"
  by (induction ps arbitrary: s) (simp_all add: refs_inv_exec)

lemma refs_inv_init: "refs_inv init_system"
  by (simp add: refs_inv_def init_system_def dict_values_def)

lemma create_purchase_order_ok:
  "dict_contains sp (suppliers s) \<Longrightarrow>
   fst (create_purchase_order today sp s) = Inr (po_id_count s) \<and>
   map_of (orders (snd (create_purchase_order today sp s))) (po_id_count s) \<noteq> None"
  by (simp add: create_purchase_order_def Let_def map_of_dict_set)

lemma create_order_for_item_ok:
  assumes "map_of (items s) i = Some it" and "dict_contains (supplierID it) (suppliers s)"
  shows "fst (create_order_for_item today i q s) = Inr (po_id_count s)"
proof -
  obtain s1 where c: "create_purchase_order today (supplierID it) s = (Inr (po_id_count s), s1)"
    and m: "map_of (orders s1) (po_id_count s) \<noteq> None"
    using create_purchase_order_ok [OF assms(2), of today]
    by (cases "create_purchase_order today (supplierID it) s") auto
  from m obtain po where "map_of (orders s1) (po_id_count s) = Some po" by blast
  with assms(1) c show ?thesis by (simp add: create_order_for_item_def order_add_item_def)
qed

subsection \<open>C10: items refer to registered suppliers and categories\<close>

text \<open>
  C10. In every state reached from the empty system, the supplier and the category of
  every stored item are registered. Consequently, for a stored item, the call of
  \<^verbatim>\<open>create_purchase_order\<close> inside \<^verbatim>\<open>create_order_for_item\<close> does not raise
  \<^verbatim>\<open>ValueError("Supplier not found")\<close>, and \<^verbatim>\<open>create_order_for_item\<close> returns the new
  order identifier.
\<close>

theorem item_references_resolve:
  "(\<forall>it \<in> set (dict_values (items (run ps init_system))).
      dict_contains (supplierID it) (suppliers (run ps init_system)) \<and>
      dict_contains (categoryID it) (categories (run ps init_system))) \<and>
   (\<forall>item. map_of (items (run ps init_system)) item_id = Some item \<longrightarrow>
      fst (create_purchase_order today (supplierID item) (run ps init_system)) \<noteq>
        Inl (ValueError ''Supplier not found'') \<and>
      fst (create_order_for_item today item_id qty (run ps init_system)) =
        Inr (po_id_count (run ps init_system)))"
proof -
  let ?s = "run ps init_system"
  have inv: "refs_inv ?s" by (rule refs_inv_run [OF refs_inv_init])
  have "fst (create_purchase_order today (supplierID item) ?s) \<noteq> Inl (ValueError ''Supplier not found'') \<and>
      fst (create_order_for_item today item_id qty ?s) = Inr (po_id_count ?s)"
    if m: "map_of (items ?s) item_id = Some item" for item
  proof -
    from inv map_of_in_values [OF m] have sp: "dict_contains (supplierID item) (suppliers ?s)"
      by (auto simp: refs_inv_def)
    from create_purchase_order_ok [OF sp, of today] create_order_for_item_ok [OF m sp, of today qty]
    show ?thesis by simp
  qed
  with inv show ?thesis by (simp add: refs_inv_def)
qed

theorem item_references_resolve_witness:
  "milk 12 \<in> set (dict_values (items (run (take 3 scenario_ops) init_system))) \<and>
   dict_contains (supplierID (milk 12)) (suppliers (run (take 3 scenario_ops) init_system)) \<and>
   dict_contains (categoryID (milk 12)) (categories (run (take 3 scenario_ops) init_system)) \<and>
   map_of (items (run (take 3 scenario_ops) init_system)) 1001 = Some (milk 12) \<and>
   fst (create_order_for_item ''2024-01-01'' 1001 None (run (take 3 scenario_ops) init_system)) =
     Inr 5001"
proof -
  let ?s = "run (take 3 scenario_ops) init_system"
  have a: "milk 12 \<in> set (dict_values (items ?s))" "map_of (items ?s) 1001 = Some (milk 12)"
    "po_id_count ?s = 5001"
    by (simp_all add: scenario_defs)
  from item_references_resolve [of "take 3 scenario_ops" 1001 "''2024-01-01''" None] a
  show ?thesis by auto
qed

subsection \<open>A method that raises leaves the state as it was\<close>

lemma add_item_atomic: "fst (add_item nm pr c sp st rl rq s) = Inl e \<Longrightarrow> snd (add_item nm pr c sp st rl rq s) = s"
  by (simp add: add_item_def Let_def split: if_splits)

lemma add_stock_atomic: "fst (add_stock i q s) = Inl e \<Longrightarrow> snd (add_stock i q s) = s"
  by (simp add: add_stock_def split: option.splits)

lemma consume_stock_atomic: "fst (consume_stock i q s) = Inl e \<Longrightarrow> snd (consume_stock i q s) = s"
  by (simp add: consume_stock_def Let_def split: option.splits if_splits)

lemma create_purchase_order_atomic:
  "fst (create_purchase_order today sp s) = Inl e \<Longrightarrow> snd (create_purchase_order today sp s) = s"
  by (simp add: create_purchase_order_def Let_def split: if_splits)

lemma order_add_item_atomic: "fst (order_add_item oid i q s) = Inl e \<Longrightarrow> snd (order_add_item oid i q s) = s"
  by (simp add: order_add_item_def split: option.splits)

lemma create_order_for_item_atomic:
  assumes "fst (create_order_for_item today i q s) = Inl e"
  shows "snd (create_order_for_item today i q s) = s"
proof (cases "map_of (items s) i")
  case None
  then show ?thesis by (simp add: create_order_for_item_def)
next
  case (Some it)
  show ?thesis
  proof (cases "dict_contains (supplierID it) (suppliers s)")
    case True
    from create_order_for_item_ok [OF Some True, of today q] assms show ?thesis by simp
  next
    case False
    then have "create_purchase_order today (supplierID it) s = (Inl (ValueError ''Supplier not found''), s)"
      by (simp add: create_purchase_order_def)
    with Some show ?thesis by (simp add: create_order_for_item_def)
  qed
qed

lemma submit_order_atomic: "fst (submit_order oid s) = Inl e \<Longrightarrow> snd (submit_order oid s) = s"
  by (simp add: submit_order_def get_order_def split: option.splits)

lemma receive_order_atomic: "fst (receive_order oid s) = Inl e \<Longrightarrow> snd (receive_order oid s) = s"
  by (simp add: receive_order_def get_order_def split: option.splits)

lemma cancel_order_atomic: "fst (cancel_order oid s) = Inl e \<Longrightarrow> snd (cancel_order oid s) = s"
  by (simp add: cancel_order_def get_order_def split: option.splits)

lemma fst_returning: "fst (returning f r) = Inl e \<longleftrightarrow> fst r = Inl e"
  by (cases "fst r") (simp_all add: returning_def)

subsection \<open>C4: a failed operation changes nothing\<close>

text \<open>
  C4. Whenever an operation of the inventory system raises, the state after the call (the
  four dictionaries and the four counters) is the state before the call.
\<close>

theorem failed_operation_changes_nothing:
  "fst (exec p s) = Inl e \<Longrightarrow> snd (exec p s) = s"
proof -
  assume fail: "fst (exec p s) = Inl e"
  show ?thesis
  proof (cases p)
    case (AddCategory nm)
    with fail show ?thesis by (simp add: returning_def add_category_def Let_def)
  next
    case (AddSupplier nm c)
    with fail show ?thesis by (simp add: returning_def add_supplier_def Let_def)
  next
    case (AddItem nm pr c sp st rl rq)
    with fail have "fst (add_item nm pr c sp st rl rq s) = Inl e" by (simp add: fst_returning)
    from add_item_atomic [OF this] AddItem show ?thesis by (simp add: returning_def)
  next
    case (AddStock i q)
    with fail have "fst (add_stock i q s) = Inl e" by (simp add: fst_returning)
    from add_stock_atomic [OF this] AddStock show ?thesis by (simp add: returning_def)
  next
    case (ConsumeStock i q)
    with fail have "fst (consume_stock i q s) = Inl e" by (simp add: fst_returning)
    from consume_stock_atomic [OF this] ConsumeStock show ?thesis by (simp add: returning_def)
  next
    case (CreatePurchaseOrder today sp)
    with fail have "fst (create_purchase_order today sp s) = Inl e" by (simp add: fst_returning)
    from create_purchase_order_atomic [OF this] CreatePurchaseOrder show ?thesis
      by (simp add: returning_def)
  next
    case (OrderAddItem oid i q)
    with fail have "fst (order_add_item oid i q s) = Inl e" by (simp add: fst_returning)
    from order_add_item_atomic [OF this] OrderAddItem show ?thesis by (simp add: returning_def)
  next
    case (CreateOrderForItem today i q)
    with fail have "fst (create_order_for_item today i q s) = Inl e" by (simp add: fst_returning)
    from create_order_for_item_atomic [OF this] CreateOrderForItem show ?thesis
      by (simp add: returning_def)
  next
    case (SubmitOrder oid)
    with fail have "fst (submit_order oid s) = Inl e" by (simp add: fst_returning)
    from submit_order_atomic [OF this] SubmitOrder show ?thesis by (simp add: returning_def)
  next
    case (ReceiveOrder oid)
    with fail have "fst (receive_order oid s) = Inl e" by (simp add: fst_returning)
    from receive_order_atomic [OF this] ReceiveOrder show ?thesis by (simp add: returning_def)
  next
    case (CancelOrder oid)
    with fail have "fst (cancel_order oid s) = Inl e" by (simp add: fst_returning)
    from cancel_order_atomic [OF this] CancelOrder show ?thesis by (simp add: returning_def)
  qed
qed

theorem failed_operation_changes_nothing_witness:
  "fst (exec (ReceiveOrder 7) (run scenario_ops init_system)) = Inl (ValueError ''Order not found'') \<and>
   snd (exec (ReceiveOrder 7) (run scenario_ops init_system)) = run scenario_ops init_system \<and>
   fst (exec (AddItem ''Tea'' (Finite 2) 1 9 3 4 5) (run scenario_ops init_system)) =
     Inl (ValueError ''Supplier does not exist'') \<and>
   snd (exec (AddItem ''Tea'' (Finite 2) 1 9 3 4 5) (run scenario_ops init_system)) = run scenario_ops init_system"
proof -
  let ?s = "run scenario_ops init_system"
  have a: "fst (exec (ReceiveOrder 7) ?s) = Inl (ValueError ''Order not found'')"
    by (simp add: scenario_defs)
  have b: "fst (exec (AddItem ''Tea'' (Finite 2) 1 9 3 4 5) ?s) = Inl (ValueError ''Supplier does not exist'')"
    by (simp add: scenario_defs)
  from a b failed_operation_changes_nothing [OF a] failed_operation_changes_nothing [OF b]
  show ?thesis by blast
qed

subsection \<open>The effect of receiving an order\<close>

lemma map_of_receive_lines:
  "distinct (map fst ls) \<Longrightarrow>
   map_of (receive_lines ls d) i =
     (case map_of d i of
        None \<Rightarrow> None
      | Some it \<Rightarrow> Some (it\<lparr>currentStock := currentStock it + dict_get ls i 0\<rparr>))"
proof (induction ls arbitrary: d)
  case Nil
  then show ?case by (simp add: dict_get_def split: option.splits)
next
  case (Cons l ls)
  obtain j q where l: "l = (j, q)" by (cases l)
  from Cons.prems l have dist: "distinct (map fst ls)" and fresh: "map_of ls j = None"
    by (simp_all add: map_of_eq_None_iff)
  show ?case
  proof (cases "map_of d j")
    case None
    with Cons.IH [OF dist, of d] l show ?thesis
      by (auto simp: dict_get_def split: option.splits)
  next
    case (Some jt)
    let ?d = "dict_set j (jt\<lparr>currentStock := currentStock jt + q\<rparr>) d"
    from Cons.IH [OF dist, of ?d] l Some fresh show ?thesis
      by (auto simp: dict_get_def map_of_dict_set split: option.splits)
  qed
qed

lemma receive_order_effect:
  assumes "map_of (orders s) oid = Some po" and "distinct (map fst (po_items po))"
  shows "fst (receive_order oid s) = Inr ()"
    and "map_of (orders (snd (receive_order oid s))) oid = Some (po\<lparr>status := ''RECEIVED''\<rparr>)"
    and "map_of (items (snd (receive_order oid s))) i =
      (case map_of (items s) i of
         None \<Rightarrow> None
       | Some it \<Rightarrow> Some (it\<lparr>currentStock := currentStock it + dict_get (po_items po) i 0\<rparr>))"
  using assms
  by (simp_all add: receive_order_def get_order_def set_status_def map_of_dict_set
      map_of_receive_lines)

lemma two_line_state:
  "map_of (orders (run two_line_ops init_system)) 5001 = Some (order2 ''OPEN'')"
  "map_of (items (run two_line_ops init_system)) 1001 = Some (milk 12)"
  "map_of (items (run two_line_ops init_system)) 1002 = Some (croissant 6)"
  by (simp_all add: two_line_ops_def order2_def croissant_def scenario_defs)

subsection \<open>C3: receiving an order, once and twice\<close>

text \<open>
  C3. For a stored order whose lines are exactly \<open>A:5\<close> and \<open>B:3\<close>, with \<open>A\<close> and \<open>B\<close>
  items of the catalog, \<^verbatim>\<open>receive_order\<close> succeeds, adds 5 to the stock of \<open>A\<close> and 3 to
  the stock of \<open>B\<close>, and sets the status of the order to RECEIVED. A second call on the
  same order succeeds again, whatever the status, and adds the quantities a second time:
  the stock of \<open>A\<close> is then 10 and the stock of \<open>B\<close> 6 above the initial values.
\<close>

theorem receive_order_not_idempotent:
  assumes "map_of (orders s) oid = Some po"
    and "distinct (map fst (po_items po))"
    and "set (po_items po) = {(A, 5), (B, 3)}"
    and "A \<noteq> B"
    and "map_of (items s) A = Some a"
    and "map_of (items s) B = Some b"
  shows "fst (receive_order oid s) = Inr () \<and>
    map_of (items (snd (receive_order oid s))) A = Some (a\<lparr>currentStock := currentStock a + 5\<rparr>) \<and>
    map_of (items (snd (receive_order oid s))) B = Some (b\<lparr>currentStock := currentStock b + 3\<rparr>) \<and>
    map_of (orders (snd (receive_order oid s))) oid = Some (po\<lparr>status := ''RECEIVED''\<rparr>) \<and>
    fst (receive_order oid (snd (receive_order oid s))) = Inr () \<and>
    map_of (items (snd (receive_order oid (snd (receive_order oid s))))) A =
      Some (a\<lparr>currentStock := currentStock a + 10\<rparr>) \<and>
    map_of (items (snd (receive_order oid (snd (receive_order oid s))))) B =
      Some (b\<lparr>currentStock := currentStock b + 6\<rparr>) \<and>
    map_of (orders (snd (receive_order oid (snd (receive_order oid s))))) oid =
      Some (po\<lparr>status := ''RECEIVED''\<rparr>)"
proof -
  let ?s1 = "snd (receive_order oid s)"
  let ?po1 = "po\<lparr>status := ''RECEIVED''\<rparr>"
  from assms(2,3) have "map_of (po_items po) A = Some 5" and "map_of (po_items po) B = Some 3"
    by (auto intro: map_of_is_SomeI)
  then have qa: "dict_get (po_items po) A 0 = 5" and qb: "dict_get (po_items po) B 0 = 3"
    by (simp_all add: dict_get_def)
  have o1: "map_of (orders ?s1) oid = Some ?po1"
    by (rule receive_order_effect(2) [OF assms(1,2)])
  have d1: "distinct (map fst (po_items ?po1))" using assms(2) by simp
  have a1: "map_of (items ?s1) A = Some (a\<lparr>currentStock := currentStock a + 5\<rparr>)"
    using receive_order_effect(3) [OF assms(1,2), of A] assms(5) qa by simp
  have b1: "map_of (items ?s1) B = Some (b\<lparr>currentStock := currentStock b + 3\<rparr>)"
    using receive_order_effect(3) [OF assms(1,2), of B] assms(6) qb by simp
  have a2: "map_of (items (snd (receive_order oid ?s1))) A = Some (a\<lparr>currentStock := currentStock a + 10\<rparr>)"
    using receive_order_effect(3) [OF o1 d1, of A] a1 qa by simp
  have b2: "map_of (items (snd (receive_order oid ?s1))) B = Some (b\<lparr>currentStock := currentStock b + 6\<rparr>)"
    using receive_order_effect(3) [OF o1 d1, of B] b1 qb by simp
  have o2: "map_of (orders (snd (receive_order oid ?s1))) oid = Some ?po1"
    using receive_order_effect(2) [OF o1 d1] by simp
  from receive_order_effect(1) [OF assms(1,2)] receive_order_effect(1) [OF o1 d1] o1 a1 b1 a2 b2 o2
  show ?thesis by simp
qed

theorem receive_order_not_idempotent_witness:
  "map_of (orders (run two_line_ops init_system)) 5001 = Some (order2 ''OPEN'') \<and>
   distinct (map fst (po_items (order2 ''OPEN''))) \<and>
   set (po_items (order2 ''OPEN'')) = {(1001, 5), (1002, 3)} \<and>
   (1001 :: int) \<noteq> 1002 \<and>
   map_of (items (run two_line_ops init_system)) 1001 = Some (milk 12) \<and>
   map_of (items (run two_line_ops init_system)) 1002 = Some (croissant 6) \<and>
   map_of (items (snd (receive_order 5001 (run two_line_ops init_system)))) 1001 = Some (milk 17) \<and>
   map_of (items (snd (receive_order 5001 (run two_line_ops init_system)))) 1002 = Some (croissant 9) \<and>
   map_of (orders (snd (receive_order 5001 (run two_line_ops init_system)))) 5001 =
     Some (order2 ''RECEIVED'') \<and>
   map_of (items (snd (receive_order 5001 (snd (receive_order 5001 (run two_line_ops init_system))))))
     1001 = Some (milk 22) \<and>
   map_of (items (snd (receive_order 5001 (snd (receive_order 5001 (run two_line_ops init_system))))))
     1002 = Some (croissant 12)"
proof -
  have h: "distinct (map fst (po_items (order2 ''OPEN'')))"
    "set (po_items (order2 ''OPEN'')) = {(1001, 5), (1002, 3)}" "(1001 :: int) \<noteq> 1002"
    by (simp_all add: order2_def)
  have e: "milk 12\<lparr>currentStock := currentStock (milk 12) + 5\<rparr> = milk 17"
    "milk 12\<lparr>currentStock := currentStock (milk 12) + 10\<rparr> = milk 22"
    "croissant 6\<lparr>currentStock := currentStock (croissant 6) + 3\<rparr> = croissant 9"
    "croissant 6\<lparr>currentStock := currentStock (croissant 6) + 6\<rparr> = croissant 12"
    "order2 ''OPEN''\<lparr>status := ''RECEIVED''\<rparr> = order2 ''RECEIVED''"
    by (simp_all add: milk_def croissant_def order2_def)
  from receive_order_not_idempotent [OF two_line_state(1) h two_line_state(2,3)] e h two_line_state
  show ?thesis by simp
qed

subsection \<open>Substring search\<close>

lemma starts_with_prefix: "starts_with k s \<longleftrightarrow> prefix k s"
  by (induction k s rule: starts_with.induct) simp_all

lemma str_contains_sublist: "str_contains k s \<longleftrightarrow> sublist k s"
  by (induction s) (simp_all add: starts_with_prefix sublist_Cons_right)

lemmas string_defs =
  lower_def lower_char_def upper_chars_def lower_chars_def strip_def is_space_def str_int_def
  str_nat.simps digit_char_def

text \<open>The two tables of characters, read as code points.\<close>

lemma is_space_code:
  "is_space c \<longleftrightarrow>
     (let n = (of_char c :: nat) in (9 \<le> n \<and> n \<le> 13) \<or> (28 \<le> n \<and> n \<le> 32) \<or> n = 133 \<or> n = 160)"
  by (cases c) (auto simp: is_space_def Let_def)

lemma lower_char_code:
  "(of_char (lower_char c) :: nat) =
     (let n = of_char c
      in if (65 \<le> n \<and> n \<le> 90) \<or> (192 \<le> n \<and> n \<le> 222 \<and> n \<noteq> 215) then n + 32 else n)"
  by (cases c) (auto simp: lower_char_def upper_chars_def lower_chars_def Let_def)

text \<open>The no-break space and the next-line control are stripped, and the accented
  capitals are lowered, as Python does.\<close>

lemma latin1_examples:
  "strip (CHR 0xA0 # ''milk'' @ [CHR 0x85]) = ''milk''"
  "lower [CHR 0xC9, CHR 0xD7, CHR 0xDF, CHR ''Z''] = [CHR 0xE9, CHR 0xD7, CHR 0xDF, CHR ''z'']"
  "fst (search_items (CHR 0xA0 # ''MILK'') (run (take 3 scenario_ops) init_system)) = Inr [milk 12]"
  by (simp_all add: search_items_def string_defs scenario_defs)

subsection \<open>C8: searching items by keyword\<close>

text \<open>
  The statement of C8 in the words of the specification, that \<^verbatim>\<open>search_items\<close> returns
  exactly the items whose name contains the keyword case-insensitively, fails: the keyword
  is stripped of leading and trailing whitespace before the comparison, so the keyword
  \<open>'' milk''\<close> finds the item Milk, whose name does not contain it.
\<close>

theorem search_items_strip_counterexample:
  "fst (search_items '' milk'' (run (take 3 scenario_ops) init_system)) = Inr [milk 12] \<and>
   \<not> name_contains_ci '' milk'' (milk 12)"
proof -
  have "fst (search_items '' milk'' (run (take 3 scenario_ops) init_system)) = Inr [milk 12]"
    by (simp add: search_items_def string_defs scenario_defs)
  moreover have "\<not> str_contains (lower '' milk'') (lower (name (milk 12)))"
    by (simp add: milk_def string_defs)
  ultimately show ?thesis by (simp add: name_contains_ci_def str_contains_sublist)
qed

text \<open>
  C8, amended. For every keyword, \<^verbatim>\<open>search_items\<close> returns exactly the items whose
  lower-cased name contains, as a substring, the lower-cased keyword with leading and
  trailing whitespace removed, in the insertion order of the item collection; the state is
  unchanged.
\<close>

theorem search_items_spec:
  "search_items keyword s =
     (Inr (filter (\<lambda>it. sublist (strip (lower keyword)) (lower (name it))) (dict_values (items s))),
      s)"
  by (simp add: search_items_def str_contains_sublist)

subsection \<open>Rounding, digits and the cells of the tables\<close>














subsection \<open>C9: the inventory table and the orders table\<close>






end
